theory Spec2Isabelle
  imports Main "HOL-Library.Char_ord" "HOL-Library.List_Lexorder"
    "HOL-Library.Product_Lexorder" "HOL-Library.Multiset"
begin

section \<open>Data model (core/models.py)\<close>

text \<open>
  The tables of the Django models, as lists of rows in insertion order (the order of the
  auto-increment primary keys). Only the columns that \<open>core/services.py\<close> reads are
  kept. Foreign keys are the key of the row they point to. A \<open>DateTimeField\<close> is a number
  of microseconds; \<open>entity_type\<close> and \<open>direction\<close> are \<open>CharField\<close>s and the service
  takes both as \<open>str\<close>, so they are strings here too.
\<close>

record Location =
  loc_id :: nat
  loc_name :: string
  loc_code :: string

record Employee =
  emp_id :: nat
  emp_location :: nat
  emp_nume :: string
  emp_department :: "string option"
  emp_activ :: bool

record Vehicle =
  veh_id :: nat
  veh_location :: nat
  veh_plate_number :: string
  veh_descriere :: string
  veh_proprietar :: string
  veh_activ :: bool

record LogEntry =
  location_id :: nat
  entity_type :: string
  entity_id :: nat
  direction :: string
  timestamp :: nat
  recorded_by :: "nat option"

record db =
  locations :: "Location list"
  employees :: "Employee list"
  vehicles :: "Vehicle list"
  logentries :: "LogEntry list"

text \<open>
  The service reports failure as \<open>(False, message)\<close> and success as \<open>(True, message)\<close>.
  The failures are tagged here with the error kind they stand for; the payload is the
  message of the source. \<open>Inl\<close> is \<open>success = False\<close>, \<open>Inr\<close> is \<open>success = True\<close>.
  The \<open>except Exception\<close> branch (a failure of the database itself) has no counterpart:
  the tables are plain lists.
\<close>

datatype error = NotFound string | InvalidTransition string

section \<open>Query helpers\<close>

text \<open>\<open>QuerySet.first()\<close>: the first row, or \<open>None\<close>.\<close>

fun first :: "'a list \<Rightarrow> 'a option" where
  "first [] = None"
| "first (x # xs) = Some x"

text \<open>
  \<open>order_by('-timestamp')\<close>. SQL leaves the order of rows with equal timestamps open;
  the stable sort keeps them in insertion order.
\<close>

definition order_by_timestamp_desc :: "LogEntry list \<Rightarrow> LogEntry list" where
  "order_by_timestamp_desc xs = sort_key (\<lambda>e. - int (timestamp e)) xs"

definition create :: "db \<Rightarrow> LogEntry \<Rightarrow> db" where
  "create s e = s\<lparr>logentries := logentries s @ [e]\<rparr>"

section \<open>core/services.py: AccessControlService\<close>

definition get_last_direction :: "db \<Rightarrow> string \<Rightarrow> nat \<Rightarrow> string option" where
  "get_last_direction s etype eid =
     (case first (order_by_timestamp_desc
                    (filter (\<lambda>e. entity_type e = etype \<and> entity_id e = eid) (logentries s))) of
        None \<Rightarrow> None
      | Some last_entry \<Rightarrow> Some (direction last_entry))"

text \<open>
  \<open>id\<close> is the primary key, so \<open>filter(id=..., activ=True)\<close> has at most one row and the
  default ordering of the model does not matter for \<open>first()\<close>.
\<close>

definition mark_employee_entry ::
  "db \<Rightarrow> nat \<Rightarrow> string \<Rightarrow> Location \<Rightarrow> nat \<Rightarrow> nat \<Rightarrow> db \<times> (error + string option)" where
  "mark_employee_entry s employee_id dir location user now =
     (case first (filter (\<lambda>e. emp_id e = employee_id \<and> emp_activ e) (employees s)) of
        None \<Rightarrow> (s, Inl (NotFound ''Angajatul nu a fost gasit sau nu este activ''))
      | Some employee \<Rightarrow>
          (let last_direction = get_last_direction s ''employee'' employee_id in
           if dir = ''IN'' \<and> last_direction = Some ''IN'' then
             (s, Inl (InvalidTransition (emp_nume employee @
                '' este deja pe teritoriu. Nu se poate inregistra intrarea de doua ori.'')))
           else if dir = ''OUT'' \<and> last_direction \<noteq> Some ''IN'' then
             (s, Inl (InvalidTransition (emp_nume employee @
                '' nu este pe teritoriu. Nu se poate inregistra iesirea fara intrare.'')))
           else
             (create s \<lparr>location_id = loc_id location, entity_type = ''employee'',
                        entity_id = employee_id, direction = dir, timestamp = now,
                        recorded_by = Some user\<rparr>,
              Inr None)))"

text \<open>
  A \<open>str\<close> is the list of the bytes of its UTF-8 encoding. \<open>nume__iexact\<close> compares
  without regard to case as the \<open>LIKE\<close> of SQLite does: the letters \<open>a\<close> to \<open>z\<close> are
  folded, every other byte is compared as it is.
\<close>

definition ascii_upper :: "char \<Rightarrow> char" where
  "ascii_upper c =
     (let n = (of_char c :: nat) in if 97 \<le> n \<and> n \<le> 122 then char_of (n - 32) else c)"

definition iexact :: "string \<Rightarrow> string \<Rightarrow> bool" where
  "iexact a b = (map ascii_upper a = map ascii_upper b)"

text \<open>
  The characters for which \<open>str.isspace()\<close> holds, each in UTF-8: U+0009 to U+000D,
  U+001C to U+001F, U+0020, U+0085, U+00A0, U+1680, U+2000 to U+200A, U+2028, U+2029,
  U+202F, U+205F and U+3000.
\<close>

definition whitespace :: "string list" where
  "whitespace =
     [[CHR 0x09], [CHR 0x0A], [CHR 0x0B], [CHR 0x0C], [CHR 0x0D],
      [CHR 0x1C], [CHR 0x1D], [CHR 0x1E], [CHR 0x1F], [CHR 0x20],
      [CHR 0xC2, CHR 0x85], [CHR 0xC2, CHR 0xA0],
      [CHR 0xE1, CHR 0x9A, CHR 0x80],
      [CHR 0xE2, CHR 0x80, CHR 0x80], [CHR 0xE2, CHR 0x80, CHR 0x81],
      [CHR 0xE2, CHR 0x80, CHR 0x82], [CHR 0xE2, CHR 0x80, CHR 0x83],
      [CHR 0xE2, CHR 0x80, CHR 0x84], [CHR 0xE2, CHR 0x80, CHR 0x85],
      [CHR 0xE2, CHR 0x80, CHR 0x86], [CHR 0xE2, CHR 0x80, CHR 0x87],
      [CHR 0xE2, CHR 0x80, CHR 0x88], [CHR 0xE2, CHR 0x80, CHR 0x89],
      [CHR 0xE2, CHR 0x80, CHR 0x8A],
      [CHR 0xE2, CHR 0x80, CHR 0xA8], [CHR 0xE2, CHR 0x80, CHR 0xA9],
      [CHR 0xE2, CHR 0x80, CHR 0xAF], [CHR 0xE2, CHR 0x81, CHR 0x9F],
      [CHR 0xE3, CHR 0x80, CHR 0x80]]"

text \<open>The UTF-8 encoding of a code point below U+10000.\<close>

definition utf8 :: "nat \<Rightarrow> string" where
  "utf8 n =
     (if n < 128 then [char_of n]
      else if n < 2048 then [char_of (192 + n div 64), char_of (128 + n mod 64)]
      else [char_of (224 + n div 4096), char_of (128 + n div 64 mod 64),
            char_of (128 + n mod 64)])"

text \<open>
  \<open>str.strip()\<close> removes the white space characters at both ends. \<open>strip_left\<close> removes,
  as long as there is one, a sequence of \<open>ws\<close> from the front; at the end the reversed
  sequences are removed from the reversed string. No encoding of a character ends with
  the encoding of another one, so this removes characters, not parts of them.
\<close>

function strip_left :: "string list \<Rightarrow> string \<Rightarrow> string" where
  "strip_left ws x =
     (case find (\<lambda>w. w \<noteq> [] \<and> take (length w) x = w) ws of
        None \<Rightarrow> x
      | Some w \<Rightarrow> strip_left ws (drop (length w) x))"
  by pat_completeness auto
termination
proof (relation "measure (\<lambda>(ws, x). length x)")
  show "wf (measure (\<lambda>(ws, x). length x))" by simp
next
  fix ws :: "string list" and x :: string and w
  assume "find (\<lambda>w. w \<noteq> [] \<and> take (length w) x = w) ws = Some w"
  then have w: "w \<noteq> []" and "take (length w) x = w"
    by (auto simp: find_Some_iff)
  then have "x \<noteq> []" by auto
  with w show "((ws, drop (length w) x), (ws, x)) \<in> measure (\<lambda>(ws, x). length x)" by simp
qed

definition lstrip :: "string \<Rightarrow> string" where
  "lstrip x = strip_left whitespace x"

definition rstrip :: "string \<Rightarrow> string" where
  "rstrip x = rev (strip_left (map rev whitespace) (rev x))"

definition strip :: "string \<Rightarrow> string" where
  "strip x = rstrip (lstrip x)"

text \<open>
  The owner lookup of \<open>mark_vehicle_entry\<close>. \<open>Employee.Meta.ordering = ['nume']\<close>, so
  \<open>first()\<close> takes the row with the least name (bytewise here; rows with equal names stay
  in insertion order).
\<close>

definition owner_employee :: "db \<Rightarrow> Vehicle \<Rightarrow> Employee option" where
  "owner_employee s vehicle =
     first (sort_key emp_nume
       (filter (\<lambda>e. iexact (emp_nume e) (strip (veh_proprietar vehicle)) \<and> emp_activ e)
          (employees s)))"

text \<open>
  The second half of \<open>mark_vehicle_entry\<close> (from \<open>linked_employee_msg = None\<close> on), on
  the log that already holds the vehicle's entry: the new log and \<open>linked_employee_msg\<close>.
  \<open>now2\<close> is the clock reading (\<open>timezone.now\<close>, the default of \<open>timestamp\<close>) when the
  owner's entry is created.
\<close>

definition link_owner ::
  "db \<Rightarrow> Vehicle \<Rightarrow> string \<Rightarrow> Location \<Rightarrow> nat \<Rightarrow> nat \<Rightarrow> db \<times> string option" where
  "link_owner s1 vehicle dir location user now2 =
     (if veh_proprietar vehicle \<noteq> [] then
        (case owner_employee s1 vehicle of
           None \<Rightarrow> (s1, None)
         | Some employee \<Rightarrow>
             (let emp_last_direction = get_last_direction s1 ''employee'' (emp_id employee);
                  should_mark =
                    (if dir = ''IN'' \<and> emp_last_direction \<noteq> Some ''IN'' then True
                     else if dir = ''OUT'' \<and> emp_last_direction = Some ''IN'' then True
                     else False)
              in if should_mark then
                   (create s1 \<lparr>location_id = loc_id location, entity_type = ''employee'',
                                entity_id = emp_id employee, direction = dir,
                                timestamp = now2, recorded_by = Some user\<rparr>,
                    Some ('' + '' @ emp_nume employee @ '' ('' @
                       (if dir = ''IN'' then ''intrare'' else ''iesire'') @ '' automata)''))
                 else (s1, None)))
      else (s1, None))"

text \<open>\<open>now\<close> is the clock reading when the vehicle's entry is created.\<close>

definition mark_vehicle_entry ::
  "db \<Rightarrow> nat \<Rightarrow> string \<Rightarrow> Location \<Rightarrow> nat \<Rightarrow> nat \<Rightarrow> nat \<Rightarrow> db \<times> (error + string option)" where
  "mark_vehicle_entry s vehicle_id dir location user now now2 =
     (case first (filter (\<lambda>v. veh_id v = vehicle_id \<and> veh_activ v) (vehicles s)) of
        None \<Rightarrow> (s, Inl (NotFound ''Vehiculul nu a fost gasit sau nu este activ''))
      | Some vehicle \<Rightarrow>
          (let last_direction = get_last_direction s ''vehicle'' vehicle_id in
           if dir = ''IN'' \<and> last_direction = Some ''IN'' then
             (s, Inl (InvalidTransition (''Vehiculul '' @ veh_plate_number vehicle @
                '' este deja pe teritoriu.'')))
           else if dir = ''OUT'' \<and> last_direction \<noteq> Some ''IN'' then
             (s, Inl (InvalidTransition (''Vehiculul '' @ veh_plate_number vehicle @
                '' nu este pe teritoriu.'')))
           else
             (let s1 = create s \<lparr>location_id = loc_id location, entity_type = ''vehicle'',
                                  entity_id = vehicle_id, direction = dir, timestamp = now,
                                  recorded_by = Some user\<rparr>;
                  linked = link_owner s1 vehicle dir location user now2
              in (fst linked, Inr (snd linked)))))"

subsection \<open>Present now\<close>

text \<open>
  The common table expression \<open>last_events\<close> restricted to \<open>rn = 1\<close>: one row for each
  \<open>(entity_type, entity_id)\<close> partition, the first of the partition by descending
  timestamp.
\<close>

definition last_events :: "LogEntry list \<Rightarrow> LogEntry list" where
  "last_events xs =
     List.map_filter
       (\<lambda>k. first (order_by_timestamp_desc
                     (filter (\<lambda>e. (entity_type e, entity_id e) = k) xs)))
       (remdups (map (\<lambda>e. (entity_type e, entity_id e)) xs))"

text \<open>
  A row of the result. The keys \<open>departament\<close>, \<open>descriere\<close> and \<open>proprietar\<close> of the
  source's dictionaries repeat columns of \<open>entity\<close> and are left out.
\<close>

record present_row =
  row_entity_type :: string
  row_entity_id :: nat
  row_name :: string
  row_entry_time :: nat
  row_entry_location :: "Location option"
  row_registered_location :: nat
  row_entity :: "Employee + Vehicle"

definition present_row_of :: "db \<Rightarrow> LogEntry \<Rightarrow> present_row option" where
  "present_row_of s r =
     (if entity_type r = ''employee'' then
        (case find (\<lambda>e. emp_id e = entity_id r) (employees s) of
           None \<Rightarrow> None
         | Some emp \<Rightarrow>
             Some \<lparr>row_entity_type = ''employee'', row_entity_id = entity_id r,
                   row_name = emp_nume emp, row_entry_time = timestamp r,
                   row_entry_location = find (\<lambda>l. loc_id l = location_id r) (locations s),
                   row_registered_location = emp_location emp, row_entity = Inl emp\<rparr>)
      else if entity_type r = ''vehicle'' then
        (case find (\<lambda>v. veh_id v = entity_id r) (vehicles s) of
           None \<Rightarrow> None
         | Some veh \<Rightarrow>
             Some \<lparr>row_entity_type = ''vehicle'', row_entity_id = entity_id r,
                   row_name = veh_plate_number veh, row_entry_time = timestamp r,
                   row_entry_location = find (\<lambda>l. loc_id l = location_id r) (locations s),
                   row_registered_location = veh_location veh, row_entity = Inr veh\<rparr>)
      else None)"

text \<open>
  The \<open>WHERE location_id = %s\<close> clause is substituted inside the common table expression,
  in front of the window function.
\<close>

definition present_now_rows :: "db \<Rightarrow> Location option \<Rightarrow> LogEntry list" where
  "present_now_rows s location =
     order_by_timestamp_desc
       (filter (\<lambda>e. direction e = ''IN'')
          (last_events
             (filter (\<lambda>e. case location of None \<Rightarrow> True | Some l \<Rightarrow> location_id e = loc_id l)
                (logentries s))))"

definition get_present_now :: "db \<Rightarrow> Location option \<Rightarrow> present_row list" where
  "get_present_now s location = List.map_filter (present_row_of s) (present_now_rows s location)"

text \<open>The rows of one entity in a result list.\<close>

definition rows_for :: "string \<Rightarrow> nat \<Rightarrow> present_row list \<Rightarrow> present_row list" where
  "rows_for etype eid rows =
     filter (\<lambda>r. row_entity_type r = etype \<and> row_entity_id r = eid) rows"

definition is_entity_present :: "db \<Rightarrow> string \<Rightarrow> nat \<Rightarrow> bool" where
  "is_entity_present s etype eid = (get_last_direction s etype eid = Some ''IN'')"

text \<open>The dictionary \<open>location_id \<rightarrow> count\<close> as an association list.\<close>

definition get_present_counts_by_location :: "db \<Rightarrow> bool \<Rightarrow> (nat \<times> nat) list" where
  "get_present_counts_by_location s employees_only =
     (let rows = filter (\<lambda>e. direction e = ''IN'')
                   (last_events
                      (filter (\<lambda>e. if employees_only then entity_type e = ''employee'' else True)
                         (logentries s)))
      in map (\<lambda>l. (l, length (filter (\<lambda>e. location_id e = l) rows)))
           (remdups (map location_id rows)))"

subsection \<open>Visit history\<close>

text \<open>
  \<open>timestamp__date\<close>: the calendar day of a timestamp, numbered from the epoch, with days
  of 86400 seconds.
\<close>

definition date_of :: "nat \<Rightarrow> nat" where
  "date_of t = t div 86400000000"

text \<open>\<open>str(n)\<close> for the \<open>{self.entity_id}\<close> of a format string.\<close>

fun str_nat :: "nat \<Rightarrow> string" where
  "str_nat n =
     (if n < 10 then [char_of (48 + n)] else str_nat (n div 10) @ [char_of (48 + n mod 10)])"

text \<open>
  The properties \<open>entity\<close>, \<open>entity_name\<close> and \<open>entity_department\<close> of \<open>LogEntry\<close>
  (core/models.py).
\<close>

definition entity :: "db \<Rightarrow> LogEntry \<Rightarrow> (Employee + Vehicle) option" where
  "entity s r =
     (if entity_type r = ''employee''
      then map_option Inl (first (filter (\<lambda>e. emp_id e = entity_id r) (employees s)))
      else map_option Inr (first (filter (\<lambda>v. veh_id v = entity_id r) (vehicles s))))"

definition entity_name :: "db \<Rightarrow> LogEntry \<Rightarrow> string" where
  "entity_name s r =
     (case entity s r of
        Some (Inl e) \<Rightarrow> emp_nume e
      | Some (Inr v) \<Rightarrow> veh_plate_number v
      | None \<Rightarrow> ''[Sters '' @ entity_type r @ '' #'' @ str_nat (entity_id r) @ '']'')"

definition entity_department :: "db \<Rightarrow> LogEntry \<Rightarrow> string" where
  "entity_department s r =
     (if entity_type r = ''employee'' then
        (case entity s r of
           Some (Inl e) \<Rightarrow> (case emp_department e of Some d \<Rightarrow> d | None \<Rightarrow> [])
         | _ \<Rightarrow> [])
      else [])"

record visit =
  visit_entity_type :: string
  visit_entity_id :: nat
  entry_time :: nat
  exit_time :: "nat option"
  entry_location :: nat
  exit_location :: "nat option"
  recorded_by_entry :: "nat option"
  recorded_by_exit :: "nat option"
  visit_entity_name :: string
  visit_entity_department :: string

definition closed_visit :: "db \<Rightarrow> string \<times> nat \<Rightarrow> LogEntry \<Rightarrow> LogEntry \<Rightarrow> visit" where
  "closed_visit s k current_entry entry =
     \<lparr>visit_entity_type = fst k, visit_entity_id = snd k,
      entry_time = timestamp current_entry, exit_time = Some (timestamp entry),
      entry_location = location_id current_entry, exit_location = Some (location_id entry),
      recorded_by_entry = recorded_by current_entry, recorded_by_exit = recorded_by entry,
      visit_entity_name = entity_name s current_entry,
      visit_entity_department = entity_department s current_entry\<rparr>"

definition open_visit :: "db \<Rightarrow> string \<times> nat \<Rightarrow> LogEntry \<Rightarrow> visit" where
  "open_visit s k current_entry =
     \<lparr>visit_entity_type = fst k, visit_entity_id = snd k,
      entry_time = timestamp current_entry, exit_time = None,
      entry_location = location_id current_entry, exit_location = None,
      recorded_by_entry = recorded_by current_entry, recorded_by_exit = None,
      visit_entity_name = entity_name s current_entry,
      visit_entity_department = entity_department s current_entry\<rparr>"

text \<open>
  The queryset \<open>entries\<close>: the filters that are set, then
  \<open>order_by('entity_type', 'entity_id', 'timestamp')\<close>. A filter argument that is \<open>None\<close>
  (or empty) is not applied.
\<close>

definition visit_entries ::
  "db \<Rightarrow> Location option \<Rightarrow> nat option \<Rightarrow> nat option \<Rightarrow> string option \<Rightarrow> LogEntry list" where
  "visit_entries s location date_from date_to entity_type_filter =
     sort_key (\<lambda>e. (entity_type e, entity_id e, timestamp e))
       (filter
          (\<lambda>e. (case location of None \<Rightarrow> True | Some l \<Rightarrow> location_id e = loc_id l) \<and>
                (case date_from of None \<Rightarrow> True | Some d \<Rightarrow> d \<le> date_of (timestamp e)) \<and>
                (case date_to of None \<Rightarrow> True | Some d \<Rightarrow> date_of (timestamp e) \<le> d) \<and>
                (case entity_type_filter of None \<Rightarrow> True | Some t \<Rightarrow> entity_type e = t))
          (logentries s))"

text \<open>
  The inner loop over the entries of one entity: \<open>current_entry\<close> is the open slot, the
  result the visits appended, with the open visit of the end of the loop last.
\<close>

fun pair_entries :: "db \<Rightarrow> string \<times> nat \<Rightarrow> LogEntry option \<Rightarrow> LogEntry list \<Rightarrow> visit list" where
  "pair_entries s k current_entry [] =
     (case current_entry of None \<Rightarrow> [] | Some c \<Rightarrow> [open_visit s k c])"
| "pair_entries s k current_entry (entry # elist) =
     (if direction entry = ''IN'' then pair_entries s k (Some entry) elist
      else if direction entry = ''OUT'' \<and> current_entry \<noteq> None then
        closed_visit s k (the current_entry) entry # pair_entries s k None elist
      else pair_entries s k current_entry elist)"

text \<open>The value of \<open>current_entry\<close> when the inner loop has gone through the entries.\<close>

fun slot_after :: "LogEntry option \<Rightarrow> LogEntry list \<Rightarrow> LogEntry option" where
  "slot_after current_entry [] = current_entry"
| "slot_after current_entry (entry # elist) =
     (if direction entry = ''IN'' then slot_after (Some entry) elist
      else if direction entry = ''OUT'' \<and> current_entry \<noteq> None then slot_after None elist
      else slot_after current_entry elist)"

text \<open>
  \<open>entity_entries\<close> is the \<open>defaultdict\<close>: its keys in the order of their first entry, and
  under each key the entries of that entity in the order of the queryset.
\<close>

fun dict_keys :: "'a list \<Rightarrow> 'a list" where
  "dict_keys [] = []"
| "dict_keys (x # xs) = x # removeAll x (dict_keys xs)"

definition entity_keys :: "LogEntry list \<Rightarrow> (string \<times> nat) list" where
  "entity_keys entries = dict_keys (map (\<lambda>e. (entity_type e, entity_id e)) entries)"

definition entity_entries :: "LogEntry list \<Rightarrow> string \<times> nat \<Rightarrow> LogEntry list" where
  "entity_entries entries k = filter (\<lambda>e. (entity_type e, entity_id e) = k) entries"

text \<open>\<open>visits[:limit]\<close>; a negative \<open>limit\<close> counts from the end.\<close>

definition slice_to :: "int \<Rightarrow> 'a list \<Rightarrow> 'a list" where
  "slice_to limit xs =
     (if 0 \<le> limit then take (nat limit) xs else take (nat (int (length xs) + limit)) xs)"

text \<open>
  The visits before the cut: paired per entity, then
  \<open>visits.sort(key=entry_time, reverse=True)\<close>, which keeps visits with equal entry times
  in their order.
\<close>

definition paired_visits ::
  "db \<Rightarrow> Location option \<Rightarrow> nat option \<Rightarrow> nat option \<Rightarrow> string option \<Rightarrow> visit list" where
  "paired_visits s location date_from date_to entity_type_filter =
     (let entries = visit_entries s location date_from date_to entity_type_filter
      in sort_key (\<lambda>v. - int (entry_time v))
           (concat (map (\<lambda>k. pair_entries s k None (entity_entries entries k))
                      (entity_keys entries))))"

definition get_visit_history ::
  "db \<Rightarrow> Location option \<Rightarrow> nat option \<Rightarrow> nat option \<Rightarrow> string option \<Rightarrow> int \<Rightarrow> visit list" where
  "get_visit_history s location date_from date_to entity_type_filter limit =
     slice_to limit (paired_visits s location date_from date_to entity_type_filter)"

text \<open>The visits of one entity in a result list.\<close>

definition visits_for :: "string \<times> nat \<Rightarrow> visit list \<Rightarrow> visit list" where
  "visits_for k vs = filter (\<lambda>v. (visit_entity_type v, visit_entity_id v) = k) vs"

section \<open>Example databases\<close>

text \<open>
  Two checkpoints, the employee 7 and the vehicle 3 whose declared owner is that employee,
  and a few logs over them.
\<close>

definition ex_L1 :: Location where
  "ex_L1 = \<lparr>loc_id = 1, loc_name = ''UG Asachi'', loc_code = ''ASA''\<rparr>"

definition ex_L2 :: Location where
  "ex_L2 = \<lparr>loc_id = 2, loc_name = ''UG Sf.Vineri'', loc_code = ''VIN''\<rparr>"

definition ex_employee :: Employee where
  "ex_employee = \<lparr>emp_id = 7, emp_location = 1, emp_nume = ''Ana Pop'',
                   emp_department = Some ''Paza'', emp_activ = True\<rparr>"

definition ex_vehicle :: Vehicle where
  "ex_vehicle = \<lparr>veh_id = 3, veh_location = 1, veh_plate_number = ''UG 01 ABC'',
                  veh_descriere = ''Dacia'', veh_proprietar = '' ana POP '', veh_activ = True\<rparr>"

definition ex_vehicle2 :: Vehicle where
  "ex_vehicle2 = \<lparr>veh_id = 4, veh_location = 2, veh_plate_number = ''UG 02 XYZ'',
                   veh_descriere = ''Logan'', veh_proprietar = [], veh_activ = True\<rparr>"

definition ex_entry :: "nat \<Rightarrow> string \<Rightarrow> nat \<Rightarrow> string \<Rightarrow> nat \<Rightarrow> LogEntry" where
  "ex_entry l t i d ts = \<lparr>location_id = l, entity_type = t, entity_id = i, direction = d,
                            timestamp = ts, recorded_by = Some 1\<rparr>"

definition ex_db :: "LogEntry list \<Rightarrow> db" where
  "ex_db log = \<lparr>locations = [ex_L1, ex_L2], employees = [ex_employee],
                  vehicles = [ex_vehicle, ex_vehicle2], logentries = log\<rparr>"



text \<open>\<open>ex_db\<close> with the employee deactivated.\<close>

definition ex_db_inactive :: "LogEntry list \<Rightarrow> db" where
  "ex_db_inactive log = \<lparr>locations = [ex_L1, ex_L2],
                         employees = [ex_employee\<lparr>emp_activ := False\<rparr>],
                         vehicles = [ex_vehicle, ex_vehicle2], logentries = log\<rparr>"

text \<open>
  A run of the service: employee 7 enters at location 1; vehicle 3, whose owner is already
  in, enters at location 2; vehicle 3 leaves at location 2, which marks the owner's exit
  there.
\<close>

definition ex_db_run :: db where
  "ex_db_run =
     fst (mark_vehicle_entry
            (fst (mark_vehicle_entry
                    (fst (mark_employee_entry (ex_db []) 7 ''IN'' ex_L1 1 100))
                    3 ''IN'' ex_L2 1 200 201))
            3 ''OUT'' ex_L2 1 300 301)"

section \<open>The most recent entry\<close>

lemma first_Some_iff: "first xs = Some x \<longleftrightarrow> (\<exists>ys. xs = x # ys)"
  by (cases xs) auto

lemma first_None_iff: "first xs = None \<longleftrightarrow> xs = []"
  by (cases xs) auto

lemma first_sort_key_least:
  assumes "first (sort_key f xs) = Some h"
  shows "h \<in> set xs \<and> (\<forall>y\<in>set xs. f h \<le> f y)"
proof -
  from assms obtain ys where ys: "sort_key f xs = h # ys"
    by (auto simp: first_Some_iff)
  have "set (sort_key f xs) = set xs" by simp
  with ys have mem: "h \<in> set xs" and sub: "set xs = insert h (set ys)" by auto
  have "sorted (map f (sort_key f xs))" by simp
  with ys have "\<forall>y\<in>set ys. f h \<le> f y" by simp
  with sub mem show ?thesis by auto
qed

text \<open>An entry newer than all the others is the first by descending timestamp.\<close>

lemma first_desc_snoc:
  assumes "\<forall>x\<in>set xs. timestamp x < timestamp e"
  shows "first (order_by_timestamp_desc (xs @ [e])) = Some e"
proof (cases "first (order_by_timestamp_desc (xs @ [e]))")
  case None
  then have "length (order_by_timestamp_desc (xs @ [e])) = 0"
    by (simp add: first_None_iff)
  then show ?thesis by (simp add: order_by_timestamp_desc_def)
next
  case (Some h)
  then have "h \<in> set (xs @ [e])"
    and "\<forall>y\<in>set (xs @ [e]). - int (timestamp h) \<le> - int (timestamp y)"
    using first_sort_key_least [of "\<lambda>e. - int (timestamp e)" "xs @ [e]" h]
    by (simp_all add: order_by_timestamp_desc_def)
  then have "h \<in> set xs \<or> h = e" and "timestamp e \<le> timestamp h" by auto
  with assms have "h = e" by fastforce
  with Some show ?thesis by simp
qed

lemma get_last_direction_snoc:
  assumes "filter (\<lambda>x. entity_type x = etype \<and> entity_id x = eid) (logentries s') =
           filter (\<lambda>x. entity_type x = etype \<and> entity_id x = eid) (logentries s) @ [e]"
    and "\<forall>x\<in>set (logentries s).
           entity_type x = etype \<and> entity_id x = eid \<longrightarrow> timestamp x < timestamp e"
  shows "get_last_direction s' etype eid = Some (direction e)"
proof -
  let ?P = "\<lambda>x. entity_type x = etype \<and> entity_id x = eid"
  have "\<forall>x\<in>set (filter ?P (logentries s)). timestamp x < timestamp e"
    using assms(2) by simp
  then show ?thesis
    unfolding get_last_direction_def assms(1) by (simp add: first_desc_snoc)
qed


section \<open>Accepted events\<close>

lemma mark_employee_entry_accepted:
  assumes "mark_employee_entry s eid d loc u now = (s', Inr m)"
  shows "s' = create s \<lparr>location_id = loc_id loc, entity_type = ''employee'',
                        entity_id = eid, direction = d, timestamp = now,
                        recorded_by = Some u\<rparr>"
  using assms
  by (simp add: mark_employee_entry_def Let_def prod_eq_iff split: option.splits if_splits)

lemma mark_vehicle_entry_accepted:
  assumes "mark_vehicle_entry s vid d loc u now now2 = (s', Inr m)"
  shows "\<exists>v. first (filter (\<lambda>v. veh_id v = vid \<and> veh_activ v) (vehicles s)) = Some v \<and>
     (s', m) = link_owner (create s \<lparr>location_id = loc_id loc, entity_type = ''vehicle'',
                        entity_id = vid, direction = d, timestamp = now,
                        recorded_by = Some u\<rparr>) v d loc u now2"
  using assms
  by (simp add: mark_vehicle_entry_def Let_def prod_eq_iff split: option.splits if_splits)

lemma link_owner_log:
  "logentries (fst (link_owner s1 v d loc u now2)) = logentries s1 \<or>
   (\<exists>e. logentries (fst (link_owner s1 v d loc u now2)) = logentries s1 @ [e] \<and>
        entity_type e = ''employee'')"
  by (simp add: link_owner_def Let_def create_def split: option.split)

lemma employee_last_after_accepted:
  assumes acc: "mark_employee_entry s eid d loc u now = (s', Inr m)"
    and old: "\<forall>x\<in>set (logentries s). entity_type x = ''employee'' \<and> entity_id x = eid
        \<longrightarrow> timestamp x < now"
  shows "get_last_direction s' ''employee'' eid = Some d"
proof -
  let ?e = "\<lparr>location_id = loc_id loc, entity_type = ''employee'', entity_id = eid,
              direction = d, timestamp = now, recorded_by = Some u\<rparr>"
  have "s' = create s ?e" using acc by (rule mark_employee_entry_accepted)
  then have "filter (\<lambda>x. entity_type x = ''employee'' \<and> entity_id x = eid) (logentries s') =
      filter (\<lambda>x. entity_type x = ''employee'' \<and> entity_id x = eid) (logentries s) @ [?e]"
    by (simp add: create_def)
  from get_last_direction_snoc [OF this] old show ?thesis by simp
qed

lemma vehicle_last_after_accepted:
  assumes acc: "mark_vehicle_entry s vid d loc u now now2 = (s', Inr m)"
    and old: "\<forall>x\<in>set (logentries s). entity_type x = ''vehicle'' \<and> entity_id x = vid
        \<longrightarrow> timestamp x < now"
  shows "get_last_direction s' ''vehicle'' vid = Some d"
proof -
  let ?e = "\<lparr>location_id = loc_id loc, entity_type = ''vehicle'', entity_id = vid,
              direction = d, timestamp = now, recorded_by = Some u\<rparr>"
  let ?P = "\<lambda>x. entity_type x = ''vehicle'' \<and> entity_id x = vid"
  from mark_vehicle_entry_accepted [OF acc] obtain v
    where eq: "(s', m) = link_owner (create s ?e) v d loc u now2"
    by blast
  have s': "s' = fst (link_owner (create s ?e) v d loc u now2)"
    using arg_cong [OF eq, of fst] by simp
  have "filter ?P (logentries s') = filter ?P (logentries (create s ?e))"
  proof -
    from link_owner_log [of "create s ?e" v d loc u now2]
    consider "logentries s' = logentries (create s ?e)"
      | x where "logentries s' = logentries (create s ?e) @ [x]" "entity_type x = ''employee''"
      unfolding s' by blast
    then show ?thesis by cases simp_all
  qed
  then have "filter ?P (logentries s') = filter ?P (logentries s) @ [?e]"
    by (simp add: create_def)
  from get_last_direction_snoc [OF this] old show ?thesis by simp
qed

text \<open>
  C6, as stated, at an employee whose log holds an IN with timestamp 100. An OUT is
  accepted with the clock reading 50, and another with the clock reading 100; in both
  cases the entry is appended and \<open>is_entity_present\<close> still answers true, since the IN
  is still first by descending timestamp.
\<close>

theorem present_after_accepted_clock:
  "mark_employee_entry (ex_db [ex_entry 1 ''employee'' 7 ''IN'' 100]) 7 ''OUT'' ex_L1 1 50 =
     (ex_db [ex_entry 1 ''employee'' 7 ''IN'' 100, ex_entry 1 ''employee'' 7 ''OUT'' 50],
      Inr None) \<and>
   is_entity_present
     (ex_db [ex_entry 1 ''employee'' 7 ''IN'' 100, ex_entry 1 ''employee'' 7 ''OUT'' 50])
     ''employee'' 7 \<and>
   mark_employee_entry (ex_db [ex_entry 1 ''employee'' 7 ''IN'' 100]) 7 ''OUT'' ex_L1 1 100 =
     (ex_db [ex_entry 1 ''employee'' 7 ''IN'' 100, ex_entry 1 ''employee'' 7 ''OUT'' 100],
      Inr None) \<and>
   is_entity_present
     (ex_db [ex_entry 1 ''employee'' 7 ''IN'' 100, ex_entry 1 ''employee'' 7 ''OUT'' 100])
     ''employee'' 7"
  by code_simp

text \<open>
  C6, amended. \<open>is_entity_present\<close> is true right after an accepted IN and false right
  after an accepted OUT, for an employee (\<open>mark_employee_entry\<close>) and for a vehicle
  (\<open>mark_vehicle_entry\<close>), when the timestamp of the new entry is later than every
  timestamp already in the log of that entity.
\<close>

theorem present_after_accepted:
  "(mark_employee_entry s eid d loc u now = (s', Inr m) \<and>
    (\<forall>x\<in>set (logentries s). entity_type x = ''employee'' \<and> entity_id x = eid
        \<longrightarrow> timestamp x < now)
    \<longrightarrow> (d = ''IN'' \<longrightarrow> is_entity_present s' ''employee'' eid) \<and>
         (d = ''OUT'' \<longrightarrow> \<not> is_entity_present s' ''employee'' eid)) \<and>
   (mark_vehicle_entry t vid dv locv uv nowv now2 = (t', Inr mv) \<and>
    (\<forall>x\<in>set (logentries t). entity_type x = ''vehicle'' \<and> entity_id x = vid
        \<longrightarrow> timestamp x < nowv)
    \<longrightarrow> (dv = ''IN'' \<longrightarrow> is_entity_present t' ''vehicle'' vid) \<and>
         (dv = ''OUT'' \<longrightarrow> \<not> is_entity_present t' ''vehicle'' vid))"
proof (intro conjI impI)
  assume "mark_employee_entry s eid d loc u now = (s', Inr m) \<and>
    (\<forall>x\<in>set (logentries s). entity_type x = ''employee'' \<and> entity_id x = eid
        \<longrightarrow> timestamp x < now)"
  then have last: "get_last_direction s' ''employee'' eid = Some d"
    using employee_last_after_accepted by blast
  show "d = ''IN'' \<Longrightarrow> is_entity_present s' ''employee'' eid"
    using last by (simp add: is_entity_present_def)
  show "d = ''OUT'' \<Longrightarrow> \<not> is_entity_present s' ''employee'' eid"
    using last by (simp add: is_entity_present_def)
next
  assume "mark_vehicle_entry t vid dv locv uv nowv now2 = (t', Inr mv) \<and>
    (\<forall>x\<in>set (logentries t). entity_type x = ''vehicle'' \<and> entity_id x = vid
        \<longrightarrow> timestamp x < nowv)"
  then have last: "get_last_direction t' ''vehicle'' vid = Some dv"
    using vehicle_last_after_accepted by blast
  show "dv = ''IN'' \<Longrightarrow> is_entity_present t' ''vehicle'' vid"
    using last by (simp add: is_entity_present_def)
  show "dv = ''OUT'' \<Longrightarrow> \<not> is_entity_present t' ''vehicle'' vid"
    using last by (simp add: is_entity_present_def)
qed

theorem present_after_accepted_witness:
  "is_entity_present
     (fst (mark_employee_entry (ex_db []) 7 ''IN'' ex_L1 1 100)) ''employee'' 7 \<and>
   \<not> is_entity_present
     (fst (mark_vehicle_entry (ex_db [ex_entry 1 ''vehicle'' 3 ''IN'' 100]) 3 ''OUT'' ex_L2 1 200 201))
     ''vehicle'' 3"
proof -
  let ?s = "ex_db []"
  let ?t = "ex_db [ex_entry 1 ''vehicle'' 3 ''IN'' 100]"
  have a: "mark_employee_entry ?s 7 ''IN'' ex_L1 1 100 =
      (fst (mark_employee_entry ?s 7 ''IN'' ex_L1 1 100), Inr None)"
    by code_simp
  have b: "\<forall>x\<in>set (logentries ?s).
      entity_type x = ''employee'' \<and> entity_id x = 7 \<longrightarrow> timestamp x < 100"
    by (simp add: ex_db_def)
  have c: "mark_vehicle_entry ?t 3 ''OUT'' ex_L2 1 200 201 =
      (fst (mark_vehicle_entry ?t 3 ''OUT'' ex_L2 1 200 201), Inr None)"
    by code_simp
  have d: "\<forall>x\<in>set (logentries ?t).
      entity_type x = ''vehicle'' \<and> entity_id x = 3 \<longrightarrow> timestamp x < 200"
    by (simp add: ex_db_def ex_entry_def)
  from a b c d
    present_after_accepted [of ?s 7 "''IN''" ex_L1 1 100
      "fst (mark_employee_entry ?s 7 ''IN'' ex_L1 1 100)" None
      ?t 3 "''OUT''" ex_L2 1 200 201
      "fst (mark_vehicle_entry ?t 3 ''OUT'' ex_L2 1 200 201)" None]
  show ?thesis by blast
qed

section \<open>Rejected events\<close>

text \<open>
  C2, as stated, at a deactivated employee whose most recent entry is IN: a second IN is
  refused with the error of the lookup (not found or not active), not with an invalid
  transition.
\<close>

theorem rejected_transition_inactive:
  "get_last_direction (ex_db_inactive [ex_entry 1 ''employee'' 7 ''IN'' 100]) ''employee'' 7
     = Some ''IN'' \<and>
   mark_employee_entry (ex_db_inactive [ex_entry 1 ''employee'' 7 ''IN'' 100]) 7 ''IN'' ex_L1 1 200
     = (ex_db_inactive [ex_entry 1 ''employee'' 7 ''IN'' 100],
        Inl (NotFound ''Angajatul nu a fost gasit sau nu este activ''))"
  by code_simp

text \<open>
  C2, amended. For an employee or a vehicle that is found active: an IN when the most
  recent entry is IN, and an OUT when the most recent entry is not IN (or there is none),
  are refused with an invalid-transition message. For one that is not found active every
  event is refused with the not-found message. In all these cases the database that
  comes back is the one that went in: nothing is appended.
\<close>

theorem rejected_transitions:
  "(first (filter (\<lambda>e. emp_id e = eid \<and> emp_activ e) (employees s)) = Some e \<longrightarrow>
      (get_last_direction s ''employee'' eid = Some ''IN'' \<longrightarrow>
         mark_employee_entry s eid ''IN'' loc u now =
           (s, Inl (InvalidTransition (emp_nume e @
              '' este deja pe teritoriu. Nu se poate inregistra intrarea de doua ori.'')))) \<and>
      (get_last_direction s ''employee'' eid \<noteq> Some ''IN'' \<longrightarrow>
         mark_employee_entry s eid ''OUT'' loc u now =
           (s, Inl (InvalidTransition (emp_nume e @
              '' nu este pe teritoriu. Nu se poate inregistra iesirea fara intrare.''))))) \<and>
   (first (filter (\<lambda>v. veh_id v = vid \<and> veh_activ v) (vehicles s)) = Some v \<longrightarrow>
      (get_last_direction s ''vehicle'' vid = Some ''IN'' \<longrightarrow>
         mark_vehicle_entry s vid ''IN'' loc u now now2 =
           (s, Inl (InvalidTransition (''Vehiculul '' @ veh_plate_number v @
              '' este deja pe teritoriu.'')))) \<and>
      (get_last_direction s ''vehicle'' vid \<noteq> Some ''IN'' \<longrightarrow>
         mark_vehicle_entry s vid ''OUT'' loc u now now2 =
           (s, Inl (InvalidTransition (''Vehiculul '' @ veh_plate_number v @
              '' nu este pe teritoriu.''))))) \<and>
   (first (filter (\<lambda>e. emp_id e = eid \<and> emp_activ e) (employees s)) = None \<longrightarrow>
      mark_employee_entry s eid d loc u now =
        (s, Inl (NotFound ''Angajatul nu a fost gasit sau nu este activ''))) \<and>
   (first (filter (\<lambda>v. veh_id v = vid \<and> veh_activ v) (vehicles s)) = None \<longrightarrow>
      mark_vehicle_entry s vid d loc u now now2 =
        (s, Inl (NotFound ''Vehiculul nu a fost gasit sau nu este activ'')))"
proof (intro conjI impI)
  assume "first (filter (\<lambda>e. emp_id e = eid \<and> emp_activ e) (employees s)) = Some e"
    and "get_last_direction s ''employee'' eid = Some ''IN''"
  then show "mark_employee_entry s eid ''IN'' loc u now =
           (s, Inl (InvalidTransition (emp_nume e @
              '' este deja pe teritoriu. Nu se poate inregistra intrarea de doua ori.'')))"
    by (simp add: mark_employee_entry_def)
next
  assume "first (filter (\<lambda>e. emp_id e = eid \<and> emp_activ e) (employees s)) = Some e"
    and "get_last_direction s ''employee'' eid \<noteq> Some ''IN''"
  then show "mark_employee_entry s eid ''OUT'' loc u now =
           (s, Inl (InvalidTransition (emp_nume e @
              '' nu este pe teritoriu. Nu se poate inregistra iesirea fara intrare.'')))"
    by (simp add: mark_employee_entry_def)
next
  assume "first (filter (\<lambda>v. veh_id v = vid \<and> veh_activ v) (vehicles s)) = Some v"
    and "get_last_direction s ''vehicle'' vid = Some ''IN''"
  then show "mark_vehicle_entry s vid ''IN'' loc u now now2 =
           (s, Inl (InvalidTransition (''Vehiculul '' @ veh_plate_number v @
              '' este deja pe teritoriu.'')))"
    by (simp add: mark_vehicle_entry_def)
next
  assume "first (filter (\<lambda>v. veh_id v = vid \<and> veh_activ v) (vehicles s)) = Some v"
    and "get_last_direction s ''vehicle'' vid \<noteq> Some ''IN''"
  then show "mark_vehicle_entry s vid ''OUT'' loc u now now2 =
           (s, Inl (InvalidTransition (''Vehiculul '' @ veh_plate_number v @
              '' nu este pe teritoriu.'')))"
    by (simp add: mark_vehicle_entry_def)
next
  assume "first (filter (\<lambda>e. emp_id e = eid \<and> emp_activ e) (employees s)) = None"
  then show "mark_employee_entry s eid d loc u now =
        (s, Inl (NotFound ''Angajatul nu a fost gasit sau nu este activ''))"
    by (simp add: mark_employee_entry_def)
next
  assume "first (filter (\<lambda>v. veh_id v = vid \<and> veh_activ v) (vehicles s)) = None"
  then show "mark_vehicle_entry s vid d loc u now now2 =
        (s, Inl (NotFound ''Vehiculul nu a fost gasit sau nu este activ''))"
    by (simp add: mark_vehicle_entry_def)
qed

theorem rejected_transitions_witness:
  "mark_employee_entry (ex_db [ex_entry 1 ''employee'' 7 ''IN'' 100]) 7 ''IN'' ex_L2 1 200 =
     (ex_db [ex_entry 1 ''employee'' 7 ''IN'' 100],
      Inl (InvalidTransition
        ''Ana Pop este deja pe teritoriu. Nu se poate inregistra intrarea de doua ori.'')) \<and>
   mark_employee_entry (ex_db []) 7 ''OUT'' ex_L2 1 200 =
     (ex_db [],
      Inl (InvalidTransition
        ''Ana Pop nu este pe teritoriu. Nu se poate inregistra iesirea fara intrare.'')) \<and>
   mark_vehicle_entry (ex_db [ex_entry 1 ''vehicle'' 3 ''IN'' 100]) 3 ''IN'' ex_L2 1 200 201 =
     (ex_db [ex_entry 1 ''vehicle'' 3 ''IN'' 100],
      Inl (InvalidTransition ''Vehiculul UG 01 ABC este deja pe teritoriu.'')) \<and>
   mark_vehicle_entry (ex_db []) 3 ''OUT'' ex_L2 1 200 201 =
     (ex_db [], Inl (InvalidTransition ''Vehiculul UG 01 ABC nu este pe teritoriu.'')) \<and>
   mark_employee_entry (ex_db []) 8 ''IN'' ex_L2 1 200 =
     (ex_db [], Inl (NotFound ''Angajatul nu a fost gasit sau nu este activ'')) \<and>
   mark_vehicle_entry (ex_db []) 9 ''IN'' ex_L2 1 200 201 =
     (ex_db [], Inl (NotFound ''Vehiculul nu a fost gasit sau nu este activ''))"
proof -
  let ?e = "ex_db [ex_entry 1 ''employee'' 7 ''IN'' 100]"
  let ?v = "ex_db [ex_entry 1 ''vehicle'' 3 ''IN'' 100]"
  have fe: "\<And>log. first (filter (\<lambda>e. emp_id e = 7 \<and> emp_activ e) (employees (ex_db log)))
      = Some ex_employee"
    by (simp add: ex_db_def ex_employee_def)
  have fv: "\<And>log. first (filter (\<lambda>v. veh_id v = 3 \<and> veh_activ v) (vehicles (ex_db log)))
      = Some ex_vehicle"
    by (simp add: ex_db_def ex_vehicle_def ex_vehicle2_def)
  have ne: "first (filter (\<lambda>e. emp_id e = 8 \<and> emp_activ e) (employees (ex_db []))) = None"
    by (simp add: ex_db_def ex_employee_def)
  have nv: "first (filter (\<lambda>v. veh_id v = 9 \<and> veh_activ v) (vehicles (ex_db []))) = None"
    by (simp add: ex_db_def ex_vehicle_def ex_vehicle2_def)
  have le: "get_last_direction ?e ''employee'' 7 = Some ''IN''" by code_simp
  have lv: "get_last_direction ?v ''vehicle'' 3 = Some ''IN''" by code_simp
  have le0: "get_last_direction (ex_db []) ''employee'' 7 \<noteq> Some ''IN''" by code_simp
  have lv0: "get_last_direction (ex_db []) ''vehicle'' 3 \<noteq> Some ''IN''" by code_simp
  have n1: "emp_nume ex_employee = ''Ana Pop''" by (simp add: ex_employee_def)
  have n2: "veh_plate_number ex_vehicle = ''UG 01 ABC''" by (simp add: ex_vehicle_def)
  from rejected_transitions [of 7 ?e ex_employee ex_L2 1 200 3 ex_vehicle 201 "''IN''"]
    fe le n1
  have 1: "mark_employee_entry ?e 7 ''IN'' ex_L2 1 200 =
     (?e, Inl (InvalidTransition
        ''Ana Pop este deja pe teritoriu. Nu se poate inregistra intrarea de doua ori.''))"
    by simp
  from rejected_transitions [of 7 "ex_db []" ex_employee ex_L2 1 200 3 ex_vehicle 201 "''IN''"]
    fe le0 n1
  have 2: "mark_employee_entry (ex_db []) 7 ''OUT'' ex_L2 1 200 =
     (ex_db [], Inl (InvalidTransition
        ''Ana Pop nu este pe teritoriu. Nu se poate inregistra iesirea fara intrare.''))"
    by simp
  from rejected_transitions [of 7 ?v ex_employee ex_L2 1 200 3 ex_vehicle 201 "''IN''"]
    fv lv n2
  have 3: "mark_vehicle_entry ?v 3 ''IN'' ex_L2 1 200 201 =
     (?v, Inl (InvalidTransition ''Vehiculul UG 01 ABC este deja pe teritoriu.''))"
    by simp
  from rejected_transitions [of 7 "ex_db []" ex_employee ex_L2 1 200 3 ex_vehicle 201 "''IN''"]
    fv lv0 n2
  have 4: "mark_vehicle_entry (ex_db []) 3 ''OUT'' ex_L2 1 200 201 =
     (ex_db [], Inl (InvalidTransition ''Vehiculul UG 01 ABC nu este pe teritoriu.''))"
    by simp
  from rejected_transitions [of 8 "ex_db []" ex_employee ex_L2 1 200 9 ex_vehicle 201 "''IN''"]
    ne nv
  have 5: "mark_employee_entry (ex_db []) 8 ''IN'' ex_L2 1 200 =
     (ex_db [], Inl (NotFound ''Angajatul nu a fost gasit sau nu este activ''))"
    and 6: "mark_vehicle_entry (ex_db []) 9 ''IN'' ex_L2 1 200 201 =
     (ex_db [], Inl (NotFound ''Vehiculul nu a fost gasit sau nu este activ''))"
    by simp_all
  from 1 2 3 4 5 6 show ?thesis by simp
qed

section \<open>Ownership linking\<close>

text \<open>\<open>whitespace\<close> holds the encodings of the white space code points.\<close>

lemma whitespace_utf8:
  "whitespace = map utf8 ([9, 10, 11, 12, 13, 28, 29, 30, 31, 32, 133, 160, 5760] @
     [8192, 8193, 8194, 8195, 8196, 8197, 8198, 8199, 8200, 8201, 8202] @
     [8232, 8233, 8239, 8287, 12288])"
  by (simp add: whitespace_def utf8_def) code_simp








section \<open>The two presence views\<close>

lemma present_row_of_employee:
  assumes "present_row_of s e = Some r" and "row_entity_type r = ''employee''"
  shows "find (\<lambda>x. emp_id x = row_entity_id r) (employees s) \<noteq> None"
  using assms
  by (auto simp: present_row_of_def split: if_splits option.splits)

lemma present_row_of_vehicle:
  assumes "present_row_of s e = Some r" and "row_entity_type r = ''vehicle''"
  shows "find (\<lambda>x. veh_id x = row_entity_id r) (vehicles s) \<noteq> None"
  using assms
  by (auto simp: present_row_of_def split: if_splits option.splits)

lemma get_present_now_row:
  assumes "r \<in> set (get_present_now s location)"
  shows "\<exists>e. present_row_of s e = Some r"
  using assms by (auto simp: get_present_now_def List.map_filter_def)

text \<open>
  C9. An entity whose most recent entry is IN and whose \<open>Employee\<close> or \<open>Vehicle\<close> row is
  gone: \<open>is_entity_present\<close> answers true, and \<open>get_present_now\<close> has no row for it,
  with any location filter or none. The two views disagree on every such entity; the
  witness below is one.
\<close>

theorem deleted_entity_views_disagree:
  "(get_last_direction s ''employee'' eid = Some ''IN'' \<and>
    find (\<lambda>x. emp_id x = eid) (employees s) = None
    \<longrightarrow> is_entity_present s ''employee'' eid \<and>
         rows_for ''employee'' eid (get_present_now s location) = []) \<and>
   (get_last_direction s ''vehicle'' vid = Some ''IN'' \<and>
    find (\<lambda>x. veh_id x = vid) (vehicles s) = None
    \<longrightarrow> is_entity_present s ''vehicle'' vid \<and>
         rows_for ''vehicle'' vid (get_present_now s location) = [])"
proof (intro conjI impI; elim conjE)
  assume "get_last_direction s ''employee'' eid = Some ''IN''"
  then show "is_entity_present s ''employee'' eid" by (simp add: is_entity_present_def)
next
  assume "get_last_direction s ''vehicle'' vid = Some ''IN''"
  then show "is_entity_present s ''vehicle'' vid" by (simp add: is_entity_present_def)
next
  assume none: "find (\<lambda>x. emp_id x = eid) (employees s) = None"
  have "\<not> (row_entity_type r = ''employee'' \<and> row_entity_id r = eid)"
    if r: "r \<in> set (get_present_now s location)" for r
  proof -
    from get_present_now_row [OF r] obtain e where e: "present_row_of s e = Some r" ..
    show ?thesis using present_row_of_employee [OF e] none by auto
  qed
  then show "rows_for ''employee'' eid (get_present_now s location) = []"
    by (simp add: rows_for_def filter_empty_conv)
next
  assume none: "find (\<lambda>x. veh_id x = vid) (vehicles s) = None"
  have "\<not> (row_entity_type r = ''vehicle'' \<and> row_entity_id r = vid)"
    if r: "r \<in> set (get_present_now s location)" for r
  proof -
    from get_present_now_row [OF r] obtain e where e: "present_row_of s e = Some r" ..
    show ?thesis using present_row_of_vehicle [OF e] none by auto
  qed
  then show "rows_for ''vehicle'' vid (get_present_now s location) = []"
    by (simp add: rows_for_def filter_empty_conv)
qed

theorem deleted_entity_views_disagree_witness:
  "is_entity_present
     (ex_db [ex_entry 1 ''employee'' 8 ''IN'' 100, ex_entry 2 ''vehicle'' 5 ''IN'' 150])
     ''employee'' 8 \<and>
   rows_for ''employee'' 8
     (get_present_now
        (ex_db [ex_entry 1 ''employee'' 8 ''IN'' 100, ex_entry 2 ''vehicle'' 5 ''IN'' 150])
        (Some ex_L1)) = [] \<and>
   rows_for ''employee'' 8
     (get_present_now
        (ex_db [ex_entry 1 ''employee'' 8 ''IN'' 100, ex_entry 2 ''vehicle'' 5 ''IN'' 150])
        None) = [] \<and>
   is_entity_present
     (ex_db [ex_entry 1 ''employee'' 8 ''IN'' 100, ex_entry 2 ''vehicle'' 5 ''IN'' 150])
     ''vehicle'' 5 \<and>
   rows_for ''vehicle'' 5
     (get_present_now
        (ex_db [ex_entry 1 ''employee'' 8 ''IN'' 100, ex_entry 2 ''vehicle'' 5 ''IN'' 150])
        None) = []"
proof -
  let ?s = "ex_db [ex_entry 1 ''employee'' 8 ''IN'' 100, ex_entry 2 ''vehicle'' 5 ''IN'' 150]"
  have a: "get_last_direction ?s ''employee'' 8 = Some ''IN''" by code_simp
  have b: "find (\<lambda>x. emp_id x = 8) (employees ?s) = None" by code_simp
  have c: "get_last_direction ?s ''vehicle'' 5 = Some ''IN''" by code_simp
  have d: "find (\<lambda>x. veh_id x = 5) (vehicles ?s) = None" by code_simp
  from deleted_entity_views_disagree [of ?s 8 "Some ex_L1" 5]
    deleted_entity_views_disagree [of ?s 8 None 5] a b c d
  show ?thesis by (simp only: simp_thms)
qed

text \<open>
  C1 on the code, after the run \<open>ex_db_run\<close>. The most recent entry of employee 7 over
  all locations is the OUT at location 2: \<open>is_entity_present\<close> is false, the unfiltered
  list and the per-location counts are empty. \<open>get_present_now\<close> filtered to location 1
  still lists the employee, because the filter is applied before the most recent entry of
  each entity is selected and the last entry at location 1 is the IN.
\<close>

theorem present_now_filter_inside:
  "logentries (ex_db_run) =
     [ex_entry 1 ''employee'' 7 ''IN'' 100, ex_entry 2 ''vehicle'' 3 ''IN'' 200,
      ex_entry 2 ''vehicle'' 3 ''OUT'' 300, ex_entry 2 ''employee'' 7 ''OUT'' 301] \<and>
   get_last_direction ex_db_run ''employee'' 7 = Some ''OUT'' \<and>
   \<not> is_entity_present ex_db_run ''employee'' 7 \<and>
   map row_entity_id (rows_for ''employee'' 7 (get_present_now ex_db_run (Some ex_L1))) = [7] \<and>
   rows_for ''employee'' 7 (get_present_now ex_db_run (Some ex_L2)) = [] \<and>
   get_present_now ex_db_run None = [] \<and>
   get_present_counts_by_location ex_db_run True = []"
proof -
  have run: "ex_db_run =
      ex_db [ex_entry 1 ''employee'' 7 ''IN'' 100, ex_entry 2 ''vehicle'' 3 ''IN'' 200,
             ex_entry 2 ''vehicle'' 3 ''OUT'' 300, ex_entry 2 ''employee'' 7 ''OUT'' 301]"
    by code_simp
  show ?thesis unfolding run by code_simp
qed

section \<open>Pairing visits\<close>

lemma pair_entries_key:
  "v \<in> set (pair_entries s k cur es) \<Longrightarrow> (visit_entity_type v, visit_entity_id v) = k"
  by (induction s k cur es rule: pair_entries.induct)
     (auto simp: closed_visit_def open_visit_def split: if_splits option.splits)

lemma set_dict_keys: "set (dict_keys xs) = set xs"
  by (induction xs) auto

lemma distinct_dict_keys: "distinct (dict_keys xs)"
  by (induction xs) (auto simp: distinct_removeAll)

lemma filter_concat_keyed:
  assumes "distinct ks" and "\<And>k' v. v \<in> set (g k') \<Longrightarrow> key v = k'"
  shows "filter (\<lambda>v. key v = k) (concat (map g ks)) = (if k \<in> set ks then g k else [])"
  using assms(1)
proof (induction ks)
  case Nil
  then show ?case by simp
next
  case (Cons a ks)
  have all: "filter (\<lambda>v. key v = k) (g k) = g k"
    using assms(2) [of _ k] by (simp add: filter_id_conv)
  have none: "a \<noteq> k \<Longrightarrow> filter (\<lambda>v. key v = k) (g a) = []"
    using assms(2) [of _ a] by (auto simp: filter_empty_conv)
  from Cons show ?case
    by (cases "a = k") (simp_all add: all none)
qed

lemma entity_entries_no_key:
  "k \<notin> set (entity_keys entries) \<Longrightarrow> entity_entries entries k = []"
  by (auto simp: entity_keys_def entity_entries_def set_dict_keys filter_empty_conv)

lemma visits_of_entity:
  "filter (\<lambda>v. (visit_entity_type v, visit_entity_id v) = k)
     (paired_visits s location date_from date_to entity_type_filter) =
   sort_key (\<lambda>v. - int (entry_time v))
     (pair_entries s k None
        (entity_entries (visit_entries s location date_from date_to entity_type_filter) k))"
proof -
  let ?entries = "visit_entries s location date_from date_to entity_type_filter"
  let ?g = "\<lambda>k. pair_entries s k None (entity_entries ?entries k)"
  have "filter (\<lambda>v. (visit_entity_type v, visit_entity_id v) = k)
          (concat (map ?g (entity_keys ?entries))) =
        (if k \<in> set (entity_keys ?entries) then ?g k else [])"
    by (rule filter_concat_keyed)
       (simp_all add: entity_keys_def distinct_dict_keys pair_entries_key)
  also have "\<dots> = ?g k"
    by (simp add: entity_entries_no_key)
  finally show ?thesis
    by (simp add: paired_visits_def Let_def filter_sort)
qed

lemma pair_entries_in_in:
  assumes "direction a = ''IN''" and "direction b = ''IN''"
  shows "pair_entries s k cur (pre @ a # b # post) = pair_entries s k cur (pre @ b # post)"
  using assms by (induction pre arbitrary: cur) simp_all

lemma pair_entries_orphan_out:
  assumes "direction x = ''OUT''" and "slot_after cur pre = None"
  shows "pair_entries s k cur (pre @ x # post) = pair_entries s k cur (pre @ post)"
  using assms by (induction pre arbitrary: cur) (auto split: if_splits)

lemma slice_to_all: "int (length xs) \<le> limit \<Longrightarrow> slice_to limit xs = xs"
  by (simp add: slice_to_def)

lemma visits_for_paired:
  "visits_for k (paired_visits s location date_from date_to entity_type_filter) =
   sort_key (\<lambda>v. - int (entry_time v))
     (pair_entries s k None
        (entity_entries (visit_entries s location date_from date_to entity_type_filter) k))"
  unfolding visits_for_def by (rule visits_of_entity)

text \<open>
  C7. Two IN entries of one entity in a row, with no OUT between them: the later one takes
  the slot and the earlier one leaves no visit. The inner loop gives the visits it gives
  without the earlier IN, from any slot, and so does the list of the entity's visits that
  \<open>get_visit_history\<close> sorts and cuts. \<open>get_visit_history\<close> is a total function with no
  error result: the loop has no branch that raises.
\<close>

theorem consecutive_in_latest_wins:
  "(direction a = ''IN'' \<and> direction b = ''IN'' \<longrightarrow>
      pair_entries s k cur (pre @ a # b # post) = pair_entries s k cur (pre @ b # post)) \<and>
   (direction a = ''IN'' \<and> direction b = ''IN'' \<and>
    entity_entries (visit_entries s location date_from date_to entity_type_filter) k =
      pre @ a # b # post \<longrightarrow>
      visits_for k (paired_visits s location date_from date_to entity_type_filter) =
        sort_key (\<lambda>v. - int (entry_time v)) (pair_entries s k None (pre @ b # post)))"
proof (intro conjI impI; elim conjE)
  assume "direction a = ''IN''" "direction b = ''IN''"
  then show "pair_entries s k cur (pre @ a # b # post) = pair_entries s k cur (pre @ b # post)"
    by (rule pair_entries_in_in)
next
  assume d: "direction a = ''IN''" "direction b = ''IN''"
    and e: "entity_entries (visit_entries s location date_from date_to entity_type_filter) k =
      pre @ a # b # post"
  show "visits_for k (paired_visits s location date_from date_to entity_type_filter) =
        sort_key (\<lambda>v. - int (entry_time v)) (pair_entries s k None (pre @ b # post))"
    unfolding visits_for_paired e pair_entries_in_in [OF d] ..
qed

theorem consecutive_in_latest_wins_witness:
  "visits_for (''employee'', 7)
     (get_visit_history
        (ex_db [ex_entry 1 ''employee'' 7 ''IN'' 100, ex_entry 2 ''employee'' 7 ''IN'' 200,
                ex_entry 1 ''employee'' 7 ''OUT'' 300]) None None None None 500) =
   [closed_visit (ex_db [ex_entry 1 ''employee'' 7 ''IN'' 100, ex_entry 2 ''employee'' 7 ''IN'' 200,
                ex_entry 1 ''employee'' 7 ''OUT'' 300]) (''employee'', 7)
      (ex_entry 2 ''employee'' 7 ''IN'' 200) (ex_entry 1 ''employee'' 7 ''OUT'' 300)]"
proof -
  let ?a = "ex_entry 1 ''employee'' 7 ''IN'' 100"
  let ?b = "ex_entry 2 ''employee'' 7 ''IN'' 200"
  let ?c = "ex_entry 1 ''employee'' 7 ''OUT'' 300"
  let ?s = "ex_db [?a, ?b, ?c]"
  have d: "direction ?a = ''IN''" "direction ?b = ''IN''" by (simp_all add: ex_entry_def)
  have ee: "entity_entries (visit_entries ?s None None None None) (''employee'', 7) =
      [] @ ?a # ?b # [?c]"
    by code_simp
  have lim: "get_visit_history ?s None None None None 500 =
      paired_visits ?s None None None None"
    by code_simp
  have ev: "sort_key (\<lambda>v. - int (entry_time v))
        (pair_entries ?s (''employee'', 7) None ([] @ ?b # [?c])) =
      [closed_visit ?s (''employee'', 7) ?b ?c]"
    by code_simp
  have "visits_for (''employee'', 7) (paired_visits ?s None None None None) =
      sort_key (\<lambda>v. - int (entry_time v))
        (pair_entries ?s (''employee'', 7) None ([] @ ?b # [?c]))"
    by (rule mp [OF conjunct2 [OF consecutive_in_latest_wins
          [of ?a ?b ?s "(''employee'', 7)" None "[]" "[?c]" None None None None]]])
       (intro conjI d ee)
  with lim ev show ?thesis by (simp only:)
qed

text \<open>
  C10. An OUT entry met while the slot is empty (\<open>slot_after\<close> of the entries before it is
  \<open>None\<close>) changes nothing: no visit for it, the slot stays empty, and the visits of the
  entity are those of the sequence without that entry. There is no branch that raises.
\<close>

theorem orphan_out_skipped:
  "(direction x = ''OUT'' \<and> slot_after cur pre = None \<longrightarrow>
      pair_entries s k cur (pre @ x # post) = pair_entries s k cur (pre @ post)) \<and>
   (direction x = ''OUT'' \<and> slot_after None pre = None \<and>
    entity_entries (visit_entries s location date_from date_to entity_type_filter) k =
      pre @ x # post \<longrightarrow>
      visits_for k (paired_visits s location date_from date_to entity_type_filter) =
        sort_key (\<lambda>v. - int (entry_time v)) (pair_entries s k None (pre @ post)))"
proof (intro conjI impI; elim conjE)
  assume "direction x = ''OUT''" "slot_after cur pre = None"
  then show "pair_entries s k cur (pre @ x # post) = pair_entries s k cur (pre @ post)"
    by (rule pair_entries_orphan_out)
next
  assume d: "direction x = ''OUT''" "slot_after None pre = None"
    and e: "entity_entries (visit_entries s location date_from date_to entity_type_filter) k =
      pre @ x # post"
  show "visits_for k (paired_visits s location date_from date_to entity_type_filter) =
        sort_key (\<lambda>v. - int (entry_time v)) (pair_entries s k None (pre @ post))"
    unfolding visits_for_paired e pair_entries_orphan_out [OF d] ..
qed

theorem orphan_out_skipped_witness:
  "visits_for (''employee'', 7)
     (get_visit_history
        (ex_db [ex_entry 1 ''employee'' 7 ''IN'' 100, ex_entry 2 ''employee'' 7 ''OUT'' 200,
                ex_entry 2 ''employee'' 7 ''IN'' 300]) (Some ex_L2) None None None 500) =
   [open_visit (ex_db [ex_entry 1 ''employee'' 7 ''IN'' 100, ex_entry 2 ''employee'' 7 ''OUT'' 200,
                ex_entry 2 ''employee'' 7 ''IN'' 300]) (''employee'', 7)
      (ex_entry 2 ''employee'' 7 ''IN'' 300)]"
proof -
  let ?a = "ex_entry 1 ''employee'' 7 ''IN'' 100"
  let ?b = "ex_entry 2 ''employee'' 7 ''OUT'' 200"
  let ?c = "ex_entry 2 ''employee'' 7 ''IN'' 300"
  let ?s = "ex_db [?a, ?b, ?c]"
  have d: "direction ?b = ''OUT''" by (simp add: ex_entry_def)
  have sl: "slot_after None [] = None" by simp
  have ee: "entity_entries (visit_entries ?s (Some ex_L2) None None None) (''employee'', 7) =
      [] @ ?b # [?c]"
    by code_simp
  have lim: "get_visit_history ?s (Some ex_L2) None None None 500 =
      paired_visits ?s (Some ex_L2) None None None"
    by code_simp
  have ev: "sort_key (\<lambda>v. - int (entry_time v))
        (pair_entries ?s (''employee'', 7) None ([] @ [?c])) =
      [open_visit ?s (''employee'', 7) ?c]"
    by code_simp
  have "visits_for (''employee'', 7) (paired_visits ?s (Some ex_L2) None None None) =
      sort_key (\<lambda>v. - int (entry_time v))
        (pair_entries ?s (''employee'', 7) None ([] @ [?c]))"
    by (rule mp [OF conjunct2 [OF orphan_out_skipped
          [of ?b None "[]" ?s "(''employee'', 7)" "[?c]" "Some ex_L2" None None None]]])
       (intro conjI d sl ee)
  with lim ev show ?thesis by (simp only:)
qed

text \<open>
  C4, as stated, with \<open>limit = 1\<close>: the filtered log of employee 7 is IN(100), OUT(200),
  IN(300) and the result holds one visit, the open one; the closed visit is cut off.
\<close>

theorem clean_sequence_cut:
  "entity_entries
     (visit_entries
        (ex_db [ex_entry 1 ''employee'' 7 ''IN'' 100, ex_entry 1 ''employee'' 7 ''OUT'' 200,
                ex_entry 2 ''employee'' 7 ''IN'' 300]) None None None None)
     (''employee'', 7) =
     [ex_entry 1 ''employee'' 7 ''IN'' 100, ex_entry 1 ''employee'' 7 ''OUT'' 200,
      ex_entry 2 ''employee'' 7 ''IN'' 300] \<and>
   get_visit_history
     (ex_db [ex_entry 1 ''employee'' 7 ''IN'' 100, ex_entry 1 ''employee'' 7 ''OUT'' 200,
             ex_entry 2 ''employee'' 7 ''IN'' 300]) None None None None 1 =
     [open_visit
        (ex_db [ex_entry 1 ''employee'' 7 ''IN'' 100, ex_entry 1 ''employee'' 7 ''OUT'' 200,
                ex_entry 2 ''employee'' 7 ''IN'' 300])
        (''employee'', 7) (ex_entry 2 ''employee'' 7 ''IN'' 300)]"
  by code_simp

text \<open>
  C4, amended. When the filtered entries of an entity are IN(t1), OUT(t2), IN(t3), the
  pairing gives exactly two visits for it, a closed one with entry t1 and exit t2 and an
  open one with entry t3 and no exit; \<open>get_visit_history\<close> returns both whenever
  \<open>limit\<close> is at least the number of visits paired from the filtered log.
\<close>

theorem clean_sequence_two_visits:
  "direction a = ''IN'' \<and> direction b = ''OUT'' \<and> direction c = ''IN'' \<and>
   entity_entries (visit_entries s location date_from date_to entity_type_filter) k = [a, b, c]
   \<longrightarrow>
     mset (visits_for k (paired_visits s location date_from date_to entity_type_filter)) =
       {#closed_visit s k a b, open_visit s k c#} \<and>
     entry_time (closed_visit s k a b) = timestamp a \<and>
     exit_time (closed_visit s k a b) = Some (timestamp b) \<and>
     entry_time (open_visit s k c) = timestamp c \<and>
     exit_time (open_visit s k c) = None \<and>
     (int (length (paired_visits s location date_from date_to entity_type_filter)) \<le> limit \<longrightarrow>
        mset (visits_for k
               (get_visit_history s location date_from date_to entity_type_filter limit)) =
          {#closed_visit s k a b, open_visit s k c#})"
proof (intro impI; elim conjE)
  assume d: "direction a = ''IN''" "direction b = ''OUT''" "direction c = ''IN''"
    and e: "entity_entries (visit_entries s location date_from date_to entity_type_filter) k =
      [a, b, c]"
  from d have p: "pair_entries s k None [a, b, c] = [closed_visit s k a b, open_visit s k c]"
    by simp
  have m: "mset (visits_for k (paired_visits s location date_from date_to entity_type_filter)) =
       {#closed_visit s k a b, open_visit s k c#}"
    unfolding visits_for_paired e p by simp
  have t: "entry_time (closed_visit s k a b) = timestamp a"
    "exit_time (closed_visit s k a b) = Some (timestamp b)"
    "entry_time (open_visit s k c) = timestamp c"
    "exit_time (open_visit s k c) = None"
    by (simp_all add: closed_visit_def open_visit_def)
  have l: "int (length (paired_visits s location date_from date_to entity_type_filter)) \<le> limit
      \<longrightarrow> mset (visits_for k
               (get_visit_history s location date_from date_to entity_type_filter limit)) =
          {#closed_visit s k a b, open_visit s k c#}"
    using m by (simp add: get_visit_history_def slice_to_all)
  from m t l show "mset (visits_for k (paired_visits s location date_from date_to entity_type_filter)) =
       {#closed_visit s k a b, open_visit s k c#} \<and>
     entry_time (closed_visit s k a b) = timestamp a \<and>
     exit_time (closed_visit s k a b) = Some (timestamp b) \<and>
     entry_time (open_visit s k c) = timestamp c \<and>
     exit_time (open_visit s k c) = None \<and>
     (int (length (paired_visits s location date_from date_to entity_type_filter)) \<le> limit \<longrightarrow>
        mset (visits_for k
               (get_visit_history s location date_from date_to entity_type_filter limit)) =
          {#closed_visit s k a b, open_visit s k c#})"
    by (intro conjI)
qed

theorem clean_sequence_two_visits_witness:
  "mset (visits_for (''employee'', 7)
     (get_visit_history
        (ex_db [ex_entry 1 ''employee'' 7 ''IN'' 100, ex_entry 1 ''employee'' 7 ''OUT'' 200,
                ex_entry 2 ''employee'' 7 ''IN'' 300]) None None None None 500)) =
   {#closed_visit
       (ex_db [ex_entry 1 ''employee'' 7 ''IN'' 100, ex_entry 1 ''employee'' 7 ''OUT'' 200,
               ex_entry 2 ''employee'' 7 ''IN'' 300])
       (''employee'', 7) (ex_entry 1 ''employee'' 7 ''IN'' 100)
       (ex_entry 1 ''employee'' 7 ''OUT'' 200),
     open_visit
       (ex_db [ex_entry 1 ''employee'' 7 ''IN'' 100, ex_entry 1 ''employee'' 7 ''OUT'' 200,
               ex_entry 2 ''employee'' 7 ''IN'' 300])
       (''employee'', 7) (ex_entry 2 ''employee'' 7 ''IN'' 300)#}"
proof -
  let ?a = "ex_entry 1 ''employee'' 7 ''IN'' 100"
  let ?b = "ex_entry 1 ''employee'' 7 ''OUT'' 200"
  let ?c = "ex_entry 2 ''employee'' 7 ''IN'' 300"
  let ?s = "ex_db [?a, ?b, ?c]"
  have d: "direction ?a = ''IN''" "direction ?b = ''OUT''" "direction ?c = ''IN''"
    by (simp_all add: ex_entry_def)
  have ee: "entity_entries (visit_entries ?s None None None None) (''employee'', 7) = [?a, ?b, ?c]"
    by code_simp
  have lim: "int (length (paired_visits ?s None None None None)) \<le> 500"
    by code_simp
  have h: "direction ?a = ''IN'' \<and> direction ?b = ''OUT'' \<and> direction ?c = ''IN'' \<and>
      entity_entries (visit_entries ?s None None None None) (''employee'', 7) = [?a, ?b, ?c]"
    by (intro conjI d ee)
  note r = mp [OF clean_sequence_two_visits
      [of ?a ?b ?c ?s None None None None "(''employee'', 7)" 500] h]
  from r lim show ?thesis by (elim conjE) (erule mp)
qed

text \<open>
  C5, as stated, at an entry dated \<open>date_to\<close> (day 2): it is among the entries considered
  and its visit is returned.
\<close>

theorem date_to_included:
  "date_of 172800000005 = 2 \<and>
   visit_entries (ex_db [ex_entry 1 ''employee'' 7 ''IN'' 172800000005])
     None (Some 1) (Some 2) None = [ex_entry 1 ''employee'' 7 ''IN'' 172800000005] \<and>
   get_visit_history (ex_db [ex_entry 1 ''employee'' 7 ''IN'' 172800000005])
     None (Some 1) (Some 2) None 500 =
     [open_visit (ex_db [ex_entry 1 ''employee'' 7 ''IN'' 172800000005])
        (''employee'', 7) (ex_entry 1 ''employee'' 7 ''IN'' 172800000005)]"
  by (simp add: date_of_def visit_entries_def get_visit_history_def paired_visits_def
      slice_to_def entity_keys_def entity_entries_def ex_db_def ex_entry_def)

text \<open>
  C5, amended. With \<open>date_from\<close> and \<open>date_to\<close> set, the entries considered are those of
  the log (and of the other filters) whose date lies in the closed range from \<open>date_from\<close>
  to \<open>date_to\<close>: both end dates are included.
\<close>

theorem visit_entries_date_range:
  "e \<in> set (visit_entries s location (Some date_from) (Some date_to) entity_type_filter) \<longleftrightarrow>
     e \<in> set (logentries s) \<and>
     (case location of None \<Rightarrow> True | Some l \<Rightarrow> location_id e = loc_id l) \<and>
     date_from \<le> date_of (timestamp e) \<and> date_of (timestamp e) \<le> date_to \<and>
     (case entity_type_filter of None \<Rightarrow> True | Some t \<Rightarrow> entity_type e = t)"
  by (auto simp: visit_entries_def)

theorem visit_entries_date_range_witness:
  "ex_entry 1 ''employee'' 7 ''IN'' 172800000005 \<in>
     set (visit_entries (ex_db [ex_entry 1 ''employee'' 7 ''IN'' 172800000005])
            None (Some 1) (Some 2) None) \<and>
   ex_entry 1 ''employee'' 7 ''IN'' 172800000005 \<in>
     set (visit_entries (ex_db [ex_entry 1 ''employee'' 7 ''IN'' 172800000005])
            None (Some 2) (Some 3) None) \<and>
   ex_entry 1 ''employee'' 7 ''IN'' 172800000005 \<notin>
     set (visit_entries (ex_db [ex_entry 1 ''employee'' 7 ''IN'' 172800000005])
            None (Some 0) (Some 1) None)"
  using visit_entries_date_range
    [of "ex_entry 1 ''employee'' 7 ''IN'' 172800000005"
        "ex_db [ex_entry 1 ''employee'' 7 ''IN'' 172800000005]" None 1 2 None]
    visit_entries_date_range
    [of "ex_entry 1 ''employee'' 7 ''IN'' 172800000005"
        "ex_db [ex_entry 1 ''employee'' 7 ''IN'' 172800000005]" None 2 3 None]
    visit_entries_date_range
    [of "ex_entry 1 ''employee'' 7 ''IN'' 172800000005"
        "ex_db [ex_entry 1 ''employee'' 7 ''IN'' 172800000005]" None 0 1 None]
  by (simp add: date_of_def ex_db_def ex_entry_def)

end
